theory Spec2Isabelle
  imports Complex_Main "HOL-Library.Multiset"
begin

section \<open>Data model\<close>

text \<open>
  A \<open>double\<close> is one of the values of the IEEE 754 binary64 format: not-a-number, the
  two infinities, the negative zero, or a finite number (\<open>Fin 0\<close> is the positive
  zero). Every finite double is a real number, so \<open>Fin\<close> carries a real.
\<close>

datatype double = NaN | NegInf | NegZero | Fin real | PosInf

text \<open>\<open>struct dvec2 : public pair<double, double>\<close>: \<open>first\<close> is \<open>fst\<close>, \<open>second\<close> is \<open>snd\<close>.\<close>

type_synonym dvec2 = "double \<times> double"

text \<open>The only exception the program throws is \<open>std::runtime_error\<close>, with its message.\<close>

datatype exn = Runtime_error string

subsection \<open>Comparison of doubles\<close>

text \<open>
  IEEE 754 compares two doubles by the numbers they stand for: the zeros are equal, the
  infinities lie below and above every finite number, and a comparison with a
  not-a-number is false. \<open>order_key\<close> places a double on that line, finite numbers in
  the middle band; \<open>dless\<close> is \<open>operator<\<close> and \<open>dle\<close> is \<open>operator<=\<close>.
\<close>

fun order_key :: "double \<Rightarrow> (int \<times> real) option" where
  "order_key NaN = None"
| "order_key NegInf = Some (- 1, 0)"
| "order_key NegZero = Some (0, 0)"
| "order_key (Fin r) = Some (0, r)"
| "order_key PosInf = Some (1, 0)"

definition dless :: "double \<Rightarrow> double \<Rightarrow> bool" where
  "dless a b =
     (case (order_key a, order_key b) of
        (Some (c, r), Some (d, s)) \<Rightarrow> c < d \<or> (c = d \<and> r < s)
      | _ \<Rightarrow> False)"

definition dle :: "double \<Rightarrow> double \<Rightarrow> bool" where
  "dle a b =
     (case (order_key a, order_key b) of
        (Some (c, r), Some (d, s)) \<Rightarrow> c < d \<or> (c = d \<and> r \<le> s)
      | _ \<Rightarrow> False)"

subsection \<open>Arithmetic of doubles\<close>

text \<open>
  The program adds, multiplies and divides doubles and calls \<open>std::sqrt\<close> and
  \<open>std::acos\<close>. How these round is the business of the platform, so the five
  operations are a parameter of the model.
\<close>

record fpu =
  fadd :: "double \<Rightarrow> double \<Rightarrow> double"
  fmul :: "double \<Rightarrow> double \<Rightarrow> double"
  fdiv :: "double \<Rightarrow> double \<Rightarrow> double"
  fsqrt :: "double \<Rightarrow> double"
  facos :: "double \<Rightarrow> double"

text \<open>
  One instance, used to run the model on concrete inputs: arithmetic that does not
  round, with the special values treated as IEEE 754 treats them (an invalid operation
  gives not-a-number, a division of a non-zero number by zero an infinity).
\<close>

fun finite_val :: "double \<Rightarrow> real option" where
  "finite_val NegZero = Some 0"
| "finite_val (Fin r) = Some r"
| "finite_val _ = None"

fun negative :: "double \<Rightarrow> bool" where
  "negative NegInf = True"
| "negative NegZero = True"
| "negative (Fin r) = (r < 0)"
| "negative _ = False"

definition signed_inf :: "bool \<Rightarrow> double" where
  "signed_inf neg = (if neg then NegInf else PosInf)"

definition signed_fin :: "bool \<Rightarrow> real \<Rightarrow> double" where
  "signed_fin neg r = (if r = 0 \<and> neg then NegZero else Fin r)"

definition exact_add :: "double \<Rightarrow> double \<Rightarrow> double" where
  "exact_add a b =
     (if a = NaN \<or> b = NaN then NaN
      else case (finite_val a, finite_val b) of
        (Some r, Some s) \<Rightarrow> signed_fin (negative a \<and> negative b) (r + s)
      | (Some r, None) \<Rightarrow> b
      | (None, Some s) \<Rightarrow> a
      | (None, None) \<Rightarrow> (if a = b then a else NaN))"

definition exact_mul :: "double \<Rightarrow> double \<Rightarrow> double" where
  "exact_mul a b =
     (if a = NaN \<or> b = NaN then NaN
      else case (finite_val a, finite_val b) of
        (Some r, Some s) \<Rightarrow> signed_fin (negative a \<noteq> negative b) (r * s)
      | (Some r, None) \<Rightarrow> (if r = 0 then NaN else signed_inf (negative a \<noteq> negative b))
      | (None, Some s) \<Rightarrow> (if s = 0 then NaN else signed_inf (negative a \<noteq> negative b))
      | (None, None) \<Rightarrow> signed_inf (negative a \<noteq> negative b))"

definition exact_div :: "double \<Rightarrow> double \<Rightarrow> double" where
  "exact_div a b =
     (if a = NaN \<or> b = NaN then NaN
      else case (finite_val a, finite_val b) of
        (Some r, Some s) \<Rightarrow>
          (if s = 0 then (if r = 0 then NaN else signed_inf (negative a \<noteq> negative b))
           else signed_fin (negative a \<noteq> negative b) (r / s))
      | (Some r, None) \<Rightarrow> signed_fin (negative a \<noteq> negative b) 0
      | (None, Some s) \<Rightarrow> signed_inf (negative a \<noteq> negative b)
      | (None, None) \<Rightarrow> NaN)"

fun exact_sqrt :: "double \<Rightarrow> double" where
  "exact_sqrt NaN = NaN"
| "exact_sqrt NegInf = NaN"
| "exact_sqrt NegZero = NegZero"
| "exact_sqrt (Fin r) = (if r < 0 then NaN else Fin (sqrt r))"
| "exact_sqrt PosInf = PosInf"

definition exact_acos :: "double \<Rightarrow> double" where
  "exact_acos a =
     (case finite_val a of
        Some r \<Rightarrow> (if - 1 \<le> r \<and> r \<le> 1 then Fin (arccos r) else NaN)
      | None \<Rightarrow> NaN)"

definition exact_fpu :: fpu where
  "exact_fpu = \<lparr>fadd = exact_add, fmul = exact_mul, fdiv = exact_div,
                 fsqrt = exact_sqrt, facos = exact_acos\<rparr>"

section \<open>The vector operations\<close>

text \<open>The friend functions and the method of \<open>dvec2\<close>, in the arithmetic \<open>F\<close>.\<close>

definition dot :: "fpu \<Rightarrow> dvec2 \<Rightarrow> dvec2 \<Rightarrow> double" where
  "dot F a b = fadd F (fmul F (fst a) (fst b)) (fmul F (snd a) (snd b))"

definition dvec2_norm :: "fpu \<Rightarrow> dvec2 \<Rightarrow> double" where
  "dvec2_norm F v = fsqrt F (dot F v v)"

definition theta :: "fpu \<Rightarrow> dvec2 \<Rightarrow> dvec2 \<Rightarrow> double" where
  "theta F a b = facos F (fdiv F (dot F a b) (fmul F (dvec2_norm F a) (dvec2_norm F b)))"

section \<open>Ingestion\<close>

text \<open>
  \<open>ingest_dvecs\<close> reads its stream through a \<open>std::istream_iterator<double>\<close>. The
  iterator presents the stream as the sequence of doubles that formatted extraction
  yields, and equals the end iterator once an extraction fails (end of stream, or text
  that is no number). The model takes that sequence. The loop of the source is
  \<open>ingest_loop\<close>: the first argument is what the iterator has still to yield, the second
  the vector \<open>output\<close> built so far.
\<close>

fun ingest_loop :: "double list \<Rightarrow> dvec2 list \<Rightarrow> exn + dvec2 list" where
  "ingest_loop [] output = Inr output"
| "ingest_loop [x] output = Inl (Runtime_error ''mismatched vector elements'')"
| "ingest_loop (x # y # instream) output = ingest_loop instream (output @ [(x, y)])"

definition ingest_dvecs :: "double list \<Rightarrow> exn + dvec2 list" where
  "ingest_dvecs input = ingest_loop input []"

section \<open>Pair enumeration\<close>

text \<open>
  The inner loop of \<open>pairwise_elts\<close> runs \<open>it2\<close> from \<open>it + 1\<close> to \<open>end\<close>; the outer loop
  runs \<open>it\<close> over the whole vector. Both push onto \<open>pairs\<close>.
\<close>

fun pairwise_inner :: "dvec2 \<Rightarrow> dvec2 list \<Rightarrow> (dvec2 \<times> dvec2) list \<Rightarrow> (dvec2 \<times> dvec2) list" where
  "pairwise_inner a [] pairs = pairs"
| "pairwise_inner a (b # rest) pairs = pairwise_inner a rest (pairs @ [(a, b)])"

fun pairwise_outer :: "dvec2 list \<Rightarrow> (dvec2 \<times> dvec2) list \<Rightarrow> (dvec2 \<times> dvec2) list" where
  "pairwise_outer [] pairs = pairs"
| "pairwise_outer (a # rest) pairs = pairwise_outer rest (pairwise_inner a rest pairs)"

definition pairwise_elts :: "dvec2 list \<Rightarrow> (dvec2 \<times> dvec2) list" where
  "pairwise_elts vecs = pairwise_outer vecs []"

text \<open>
  The index pairs \<open>(i, j)\<close> with \<open>i < j < n\<close>, listed with \<open>i\<close> ascending and, for each
  \<open>i\<close>, \<open>j\<close> ascending: the order in which the specification says pairs are emitted.
\<close>

definition index_pairs :: "nat \<Rightarrow> (nat \<times> nat) list" where
  "index_pairs n = concat (map (\<lambda>i. map (Pair i) [Suc i..<n]) [0..<n])"

section \<open>Angle sort\<close>

text \<open>
  \<open>std::sort\<close> belongs to the standard library. Its contract: when the comparison is a
  strict weak ordering, the range is rearranged so that no element compares less than
  one before it; the order of equivalent elements is not fixed. The model is insertion
  sort driven by the comparison alone: each element in turn goes in front of the first
  element of the sorted part that it compares less than.
\<close>

fun insert_by :: "('a \<Rightarrow> 'a \<Rightarrow> bool) \<Rightarrow> 'a \<Rightarrow> 'a list \<Rightarrow> 'a list" where
  "insert_by cmp x [] = [x]"
| "insert_by cmp x (y # ys) = (if cmp x y then x # y # ys else y # insert_by cmp x ys)"

definition std_sort :: "('a \<Rightarrow> 'a \<Rightarrow> bool) \<Rightarrow> 'a list \<Rightarrow> 'a list" where
  "std_sort cmp xs = fold (insert_by cmp) xs []"

definition theta_sort :: "fpu \<Rightarrow> dvec2 list \<Rightarrow> (dvec2 \<times> dvec2) list" where
  "theta_sort F vecs =
     (let pairs = pairwise_elts vecs
      in std_sort (\<lambda>x y. dless (theta F (fst x) (snd x)) (theta F (fst y) (snd y))) pairs)"

section \<open>The driver\<close>

text \<open>
  \<open>main\<close> sees the command line as \<open>argv\<close> (the program's name first, so \<open>argc\<close> is its
  length) and the files that can be opened for reading, each with the doubles a stream
  over it yields. It ends by returning a status or by an exception nobody catches; what
  it wrote to the standard output until then is a list of lines. How a line is laid
  out (\<open>std::format\<close> or \<open>operator<<\<close>) is the parameter \<open>fmt\<close>.
\<close>

datatype ending = Returned int | Uncaught exn

record process =
  stdout :: "string list"
  ending :: ending

text \<open>
  An uncaught exception calls \<open>std::terminate\<close>, which aborts the process: its exit
  status is not zero.
\<close>

fun nonzero_exit :: "ending \<Rightarrow> bool" where
  "nonzero_exit (Returned n) = (n \<noteq> 0)"
| "nonzero_exit (Uncaught e) = True"

definition DEFAULT_FNAME :: string where
  "DEFAULT_FNAME = ''test.txt''"

text \<open>The first statements of \<open>main\<close>: the choice of the file name.\<close>

definition main_fname :: "string list \<Rightarrow> string" where
  "main_fname argv = (if length argv = 2 then argv ! 1 else DEFAULT_FNAME)"

definition main ::
  "fpu \<Rightarrow> (dvec2 \<Rightarrow> dvec2 \<Rightarrow> double \<Rightarrow> string) \<Rightarrow> (string \<Rightarrow> double list option) \<Rightarrow>
   string list \<Rightarrow> process" where
  "main F fmt files argv =
     (let fname = main_fname argv in
      case files fname of
        None \<Rightarrow> \<lparr>stdout = [], ending = Uncaught (Runtime_error ''no input file'')\<rparr>
      | Some ifile \<Rightarrow>
          (case ingest_dvecs ifile of
             Inl e \<Rightarrow> \<lparr>stdout = [], ending = Uncaught e\<rparr>
           | Inr vecs \<Rightarrow>
               (let vecpairs = theta_sort F vecs
                in \<lparr>stdout = map (\<lambda>(x, y). fmt x y (theta F x y)) vecpairs,
                    ending = Returned 0\<rparr>)))"

section \<open>Properties of ingestion\<close>

lemma ingest_loop_even:
  "even (length ts) \<Longrightarrow>
   \<exists>vs. ingest_loop ts out = Inr (out @ vs) \<and> length vs = length ts div 2 \<and>
        (\<forall>k<length vs. vs ! k = (ts ! (2 * k), ts ! (2 * k + 1)))"
proof (induction ts out rule: ingest_loop.induct)
  case (1 acc)
  show ?case by simp
next
  case (2 x acc)
  then show ?case by simp
next
  case (3 x y instream acc)
  from 3 obtain vs where vs:
    "ingest_loop instream (acc @ [(x, y)]) = Inr ((acc @ [(x, y)]) @ vs)"
    "length vs = length instream div 2"
    "\<forall>k<length vs. vs ! k = (instream ! (2 * k), instream ! (2 * k + 1))"
    by auto
  let ?ws = "(x, y) # vs"
  have "ingest_loop (x # y # instream) acc = Inr (acc @ ?ws)"
    using vs(1) by simp
  moreover have "length ?ws = length (x # y # instream) div 2"
    using vs(2) by simp
  moreover have "\<forall>k<length ?ws. ?ws ! k = ((x # y # instream) ! (2 * k), (x # y # instream) ! (2 * k + 1))"
  proof (intro allI impI)
    fix k assume k: "k < length ?ws"
    show "?ws ! k = ((x # y # instream) ! (2 * k), (x # y # instream) ! (2 * k + 1))"
    proof (cases k)
      case 0
      then show ?thesis by simp
    next
      case (Suc m)
      with k vs(3) show ?thesis by simp
    qed
  qed
  ultimately show ?case by blast
qed

lemma ingest_loop_odd:
  "odd (length ts) \<Longrightarrow> ingest_loop ts out = Inl (Runtime_error ''mismatched vector elements'')"
  by (induction ts out rule: ingest_loop.induct) simp_all

text \<open>
  C1. A stream of \<open>2 * N\<close> numbers is ingested without error into exactly \<open>N\<close> vectors; the
  \<open>k\<close>-th vector has token \<open>2 * k\<close> as its \<open>x\<close> and token \<open>2 * k + 1\<close> as its \<open>y\<close>. A stream
  that yields no number (empty, or white space only) gives the empty sequence.
\<close>

theorem ingest_dvecs_round_trip:
  "(length ts = 2 * N \<longrightarrow>
      (\<exists>vs. ingest_dvecs ts = Inr vs \<and> length vs = N \<and>
            (\<forall>k<N. vs ! k = (ts ! (2 * k), ts ! (2 * k + 1))))) \<and>
   ingest_dvecs [] = Inr []"
proof (intro conjI impI)
  assume len: "length ts = 2 * N"
  then have "even (length ts)" by simp
  from ingest_loop_even [OF this, of "[]"] len
  show "\<exists>vs. ingest_dvecs ts = Inr vs \<and> length vs = N \<and>
            (\<forall>k<N. vs ! k = (ts ! (2 * k), ts ! (2 * k + 1)))"
    by (auto simp: ingest_dvecs_def)
next
  show "ingest_dvecs [] = Inr []" by (simp add: ingest_dvecs_def)
qed

theorem ingest_dvecs_round_trip_witness:
  "ingest_dvecs [Fin 1, Fin 1, Fin 1, Fin 2] = Inr [(Fin 1, Fin 1), (Fin 1, Fin 2)]"
proof -
  have "length [Fin 1, Fin 1, Fin 1, Fin 2] = 2 * 2" by simp
  with ingest_dvecs_round_trip [of "[Fin 1, Fin 1, Fin 1, Fin 2]" 2]
  obtain vs where vs: "ingest_dvecs [Fin 1, Fin 1, Fin 1, Fin 2] = Inr vs" "length vs = 2"
    "\<forall>k<2. vs ! k = ([Fin 1, Fin 1, Fin 1, Fin 2] ! (2 * k), [Fin 1, Fin 1, Fin 1, Fin 2] ! (2 * k + 1))"
    by blast
  from vs(3) have "vs ! 0 = (Fin 1, Fin 1)" "vs ! 1 = (Fin 1, Fin 2)" by simp_all
  with vs(2) have "vs = [(Fin 1, Fin 1), (Fin 1, Fin 2)]"
    by (auto simp: list_eq_iff_nth_eq less_Suc_eq numeral_2_eq_2)
  with vs(1) show ?thesis by simp
qed

text \<open>
  C4. When the stream yields an odd count of numbers, \<open>ingest_dvecs\<close> throws
  \<open>runtime_error("mismatched vector elements")\<close>; the result is the exception alone, so
  the vectors read before it are not returned.
\<close>

theorem ingest_dvecs_odd_fails:
  "odd (length ts) \<Longrightarrow> ingest_dvecs ts = Inl (Runtime_error ''mismatched vector elements'')"
  by (simp add: ingest_dvecs_def ingest_loop_odd)

theorem ingest_dvecs_odd_fails_witness:
  "odd (length [Fin 1, Fin 1, Fin 1, Fin 2, Fin 1]) \<and>
   ingest_dvecs [Fin 1, Fin 1, Fin 1, Fin 2, Fin 1] = Inl (Runtime_error ''mismatched vector elements'')"
  using ingest_dvecs_odd_fails [of "[Fin 1, Fin 1, Fin 1, Fin 2, Fin 1]"] by simp

section \<open>Properties of pair enumeration\<close>

text \<open>Each loop appends to what it was given; the pairs it appends are read off by index.\<close>

lemma pairwise_inner_eq: "pairwise_inner a rest pairs = pairs @ map (Pair a) rest"
  by (induction rest arbitrary: pairs) simp_all

lemma index_rows_Cons:
  "concat (map (\<lambda>i. map (\<lambda>j. ((a # rest) ! i, (a # rest) ! j)) [Suc i..<Suc (length rest)]) [0..<Suc (length rest)])
   = map (Pair a) rest @ concat (map (\<lambda>i. map (\<lambda>j. (rest ! i, rest ! j)) [Suc i..<length rest]) [0..<length rest])"
proof -
  have head: "map (\<lambda>j. (a, (a # rest) ! j)) [Suc 0..<Suc (length rest)] = map (Pair a) rest"
  proof -
    have "map (\<lambda>j. (a, (a # rest) ! j)) (map Suc [0..<length rest]) = map (Pair a) (map ((!) rest) [0..<length rest])"
      by simp
    then show ?thesis by (simp only: map_Suc_upt map_nth)
  qed
  have row: "map (\<lambda>j. (rest ! i, (a # rest) ! j)) [Suc (Suc i)..<Suc (length rest)]
        = map (\<lambda>j. (rest ! i, rest ! j)) [Suc i..<length rest]" for i
  proof -
    have "map (\<lambda>j. (rest ! i, (a # rest) ! j)) (map Suc [Suc i..<length rest])
        = map (\<lambda>j. (rest ! i, rest ! j)) [Suc i..<length rest]" by simp
    then show ?thesis by (simp only: map_Suc_upt)
  qed
  have "[0..<Suc (length rest)] = 0 # map Suc [0..<length rest]"
    by (simp only: map_Suc_upt upt_conv_Cons [of 0 "Suc (length rest)"] zero_less_Suc)
  then show ?thesis using head row by (simp add: comp_def del: upt_Suc)
qed

lemma pairwise_outer_eq:
  "pairwise_outer vecs pairs =
   pairs @ concat (map (\<lambda>i. map (\<lambda>j. (vecs ! i, vecs ! j)) [Suc i..<length vecs]) [0..<length vecs])"
proof (induction vecs arbitrary: pairs)
  case Nil
  show ?case by simp
next
  case (Cons a rest)
  show ?case
    using index_rows_Cons [of a rest] by (simp add: Cons.IH pairwise_inner_eq del: upt_Suc)
qed

lemma pairwise_elts_index:
  "pairwise_elts vecs = map (\<lambda>(i, j). (vecs ! i, vecs ! j)) (index_pairs (length vecs))"
  by (simp add: pairwise_elts_def pairwise_outer_eq index_pairs_def map_concat comp_def)

lemma pairwise_outer_length:
  "length (pairwise_outer vecs pairs) = length pairs + length vecs * (length vecs - 1) div 2"
proof (induction vecs arbitrary: pairs)
  case Nil
  show ?case by simp
next
  case (Cons a rest)
  have "length rest + length rest * (length rest - 1) div 2 = (Suc (length rest)) * length rest div 2"
  proof (cases "length rest")
    case 0
    then show ?thesis by simp
  next
    case (Suc m)
    have "Suc m + Suc m * m div 2 = (2 * Suc m + Suc m * m) div 2" by simp
    also have "2 * Suc m + Suc m * m = Suc (Suc m) * Suc m" by simp
    finally show ?thesis using Suc by simp
  qed
  then show ?case by (simp add: Cons.IH pairwise_inner_eq)
qed

lemma set_index_pairs: "set (index_pairs n) = {(i, j). i < j \<and> j < n}"
proof -
  have "(a, b) \<in> set (index_pairs n) \<longleftrightarrow> a < b \<and> b < n" for a b
  proof
    assume "(a, b) \<in> set (index_pairs n)"
    then show "a < b \<and> b < n" by (auto simp: index_pairs_def)
  next
    assume ab: "a < b \<and> b < n"
    then have "a \<in> {0..<n}" "(a, b) \<in> Pair a ` {Suc a..<n}" by auto
    then show "(a, b) \<in> set (index_pairs n)" by (auto simp: index_pairs_def)
  qed
  then show ?thesis by auto
qed

lemma sorted_wrt_concat:
  "sorted_wrt R (concat xss) \<longleftrightarrow>
   (\<forall>xs\<in>set xss. sorted_wrt R xs) \<and> sorted_wrt (\<lambda>xs ys. \<forall>x\<in>set xs. \<forall>y\<in>set ys. R x y) xss"
  by (induction xss) (auto simp: sorted_wrt_append)

lemma sorted_index_pairs:
  "sorted_wrt (\<lambda>(i, j) (k, l). i < k \<or> (i = k \<and> j < l)) (index_pairs n)"
  unfolding index_pairs_def sorted_wrt_concat
  by (auto simp: sorted_wrt_map sorted_wrt_iff_nth_less)

lemma distinct_index_pairs: "distinct (index_pairs n)"
proof -
  have "sorted_wrt (\<noteq>) (index_pairs n)"
    by (rule sorted_wrt_mono_rel [OF _ sorted_index_pairs]) auto
  then show ?thesis by (simp add: distinct_conv_nth sorted_wrt_iff_nth_less) (metis nat_neq_iff)
qed

text \<open>
  C3. For \<open>n\<close> vectors \<open>pairwise_elts\<close> returns \<open>n * (n - 1) / 2\<close> pairs: the pairs
  \<open>(vecs ! i, vecs ! j)\<close> along a list of index pairs that holds every \<open>(i, j)\<close> with
  \<open>i < j < n\<close> and nothing else, holds none twice, and ascends in the lexicographic
  order of \<open>(i, j)\<close>.
\<close>

theorem pairwise_elts_enumeration:
  "length (pairwise_elts vecs) = length vecs * (length vecs - 1) div 2 \<and>
   pairwise_elts vecs = map (\<lambda>(i, j). (vecs ! i, vecs ! j)) (index_pairs (length vecs)) \<and>
   set (index_pairs (length vecs)) = {(i, j). i < j \<and> j < length vecs} \<and>
   distinct (index_pairs (length vecs)) \<and>
   sorted_wrt (\<lambda>(i, j) (k, l). i < k \<or> (i = k \<and> j < l)) (index_pairs (length vecs))"
  using pairwise_outer_length [of vecs "[]"]
  by (simp add: pairwise_elts_def [symmetric] pairwise_elts_index [symmetric] set_index_pairs
      distinct_index_pairs sorted_index_pairs)

theorem pairwise_elts_enumeration_witness:
  "length (pairwise_elts [(Fin 1, Fin 1), (Fin 1, Fin 2), (Fin 1, Fin 3), (Fin 1, Fin 4), (Fin 1, Fin 5)]) = 10"
  using pairwise_elts_enumeration
    [of "[(Fin 1, Fin 1), (Fin 1, Fin 2), (Fin 1, Fin 3), (Fin 1, Fin 4), (Fin 1, Fin 5)]", THEN conjunct1]
  by simp

text \<open>
  C7. Two equal vectors at positions \<open>i < j\<close> are paired like any other two: the pair
  \<open>(vecs ! i, vecs ! j)\<close> is in the result. The result follows the index pairs, and no
  index pair joins a position with itself.
\<close>

theorem pairwise_elts_by_position:
  "(i < j \<and> j < length vecs \<and> vecs ! i = vecs ! j \<longrightarrow>
      (vecs ! i, vecs ! j) \<in> set (pairwise_elts vecs)) \<and>
   pairwise_elts vecs = map (\<lambda>(i, j). (vecs ! i, vecs ! j)) (index_pairs (length vecs)) \<and>
   (k, k) \<notin> set (index_pairs (length vecs))"
proof (intro conjI impI)
  assume h: "i < j \<and> j < length vecs \<and> vecs ! i = vecs ! j"
  then have "(i, j) \<in> set (index_pairs (length vecs))" by (simp add: set_index_pairs)
  then have "(\<lambda>(i, j). (vecs ! i, vecs ! j)) (i, j) \<in> set (pairwise_elts vecs)"
    unfolding pairwise_elts_index set_map by (rule imageI)
  then show "(vecs ! i, vecs ! j) \<in> set (pairwise_elts vecs)" by simp
next
  show "pairwise_elts vecs = map (\<lambda>(i, j). (vecs ! i, vecs ! j)) (index_pairs (length vecs))"
    by (rule pairwise_elts_index)
next
  show "(k, k) \<notin> set (index_pairs (length vecs))" by (simp add: set_index_pairs)
qed

theorem pairwise_elts_by_position_witness:
  "(0::nat) < 1 \<and> 1 < length [(Fin 1, Fin 1), (Fin 1, Fin 1)] \<and>
   ((Fin 1, Fin 1), (Fin 1, Fin 1)) \<in> set (pairwise_elts [(Fin 1, Fin 1), (Fin 1, Fin 1)])"
  using pairwise_elts_by_position [of 0 1 "[(Fin 1, Fin 1), (Fin 1, Fin 1)]" 0, THEN conjunct1]
  by simp

section \<open>Properties of the vector operations\<close>

text \<open>
  C5. \<open>theta a b\<close> is the arc cosine of the dot product divided by the product of the
  norms, where the dot product is \<open>a.x * b.x + a.y * b.y\<close> and the norm of \<open>v\<close> is the
  square root of \<open>v.x * v.x + v.y * v.y\<close>, each operation being the platform's.
\<close>

theorem theta_formula:
  "theta F (a_x, a_y) (b_x, b_y) =
     facos F (fdiv F (fadd F (fmul F a_x b_x) (fmul F a_y b_y))
                     (fmul F (fsqrt F (fadd F (fmul F a_x a_x) (fmul F a_y a_y)))
                             (fsqrt F (fadd F (fmul F b_x b_x) (fmul F b_y b_y))))) \<and>
   dot F (a_x, a_y) (b_x, b_y) = fadd F (fmul F a_x b_x) (fmul F a_y b_y) \<and>
   dvec2_norm F (a_x, a_y) = fsqrt F (fadd F (fmul F a_x a_x) (fmul F a_y a_y))"
  by (simp add: theta_def dot_def dvec2_norm_def)

subsection \<open>The arithmetic that does not round\<close>

text \<open>
  On finite doubles the operations of \<open>exact_fpu\<close> are those of the real numbers, so
  the angle of two non-zero vectors is the arc cosine of the real quotient, which the
  Cauchy-Schwarz inequality keeps between \<open>-1\<close> and \<open>1\<close>.
\<close>

lemma finite_val_add:
  "finite_val a = Some r \<Longrightarrow> finite_val b = Some s \<Longrightarrow> finite_val (exact_add a b) = Some (r + s)"
  by (cases a; cases b) (auto simp: exact_add_def signed_fin_def)

lemma finite_val_mul:
  "finite_val a = Some r \<Longrightarrow> finite_val b = Some s \<Longrightarrow> finite_val (exact_mul a b) = Some (r * s)"
  by (cases a; cases b) (auto simp: exact_mul_def signed_fin_def)

lemma finite_val_div:
  "finite_val a = Some r \<Longrightarrow> finite_val b = Some s \<Longrightarrow> s \<noteq> 0 \<Longrightarrow>
   finite_val (exact_div a b) = Some (r / s)"
  by (cases a; cases b) (auto simp: exact_div_def signed_fin_def)

lemma finite_val_sqrt:
  "finite_val a = Some r \<Longrightarrow> 0 \<le> r \<Longrightarrow> finite_val (exact_sqrt a) = Some (sqrt r)"
  by (cases a) auto

lemma exact_acos_finite:
  "finite_val a = Some r \<Longrightarrow> - 1 \<le> r \<Longrightarrow> r \<le> 1 \<Longrightarrow> exact_acos a = Fin (arccos r)"
  by (simp add: exact_acos_def)

lemma cauchy_schwarz2:
  fixes a b c d :: real
  shows "\<bar>a * c + b * d\<bar> \<le> sqrt (a * a + b * b) * sqrt (c * c + d * d)"
proof -
  have "(a * c + b * d)\<^sup>2 + (a * d - b * c)\<^sup>2 = (a * a + b * b) * (c * c + d * d)"
    by (simp add: power2_eq_square algebra_simps)
  moreover have "0 \<le> (a * d - b * c)\<^sup>2" by simp
  ultimately have "(a * c + b * d)\<^sup>2 \<le> (a * a + b * b) * (c * c + d * d)" by linarith
  then have "sqrt ((a * c + b * d)\<^sup>2) \<le> sqrt ((a * a + b * b) * (c * c + d * d))"
    by (rule real_sqrt_le_mono)
  then show ?thesis by (simp add: real_sqrt_mult)
qed

lemma theta_exact_real:
  assumes "(a_x, a_y) \<noteq> (0, 0)" and "(b_x, b_y) \<noteq> (0, 0)"
  shows "theta exact_fpu (Fin a_x, Fin a_y) (Fin b_x, Fin b_y) =
         Fin (arccos ((a_x * b_x + a_y * b_y) / (sqrt (a_x\<^sup>2 + a_y\<^sup>2) * sqrt (b_x\<^sup>2 + b_y\<^sup>2))))"
proof -
  let ?F = exact_fpu
  let ?a = "(Fin a_x, Fin a_y)" and ?b = "(Fin b_x, Fin b_y)"
  let ?na = "sqrt (a_x * a_x + a_y * a_y)" and ?nb = "sqrt (b_x * b_x + b_y * b_y)"
  have dot: "finite_val (dot ?F (Fin p, Fin q) (Fin u, Fin v)) = Some (p * u + q * v)" for p q u v
    by (simp add: dot_def exact_fpu_def finite_val_add finite_val_mul)
  have sq: "0 \<le> p * p + q * q" for p q :: real by simp
  have nrm: "finite_val (dvec2_norm ?F (Fin p, Fin q)) = Some (sqrt (p * p + q * q))" for p q
    unfolding dvec2_norm_def using finite_val_sqrt [OF dot sq] by (simp add: exact_fpu_def)
  have pos_a: "0 < ?na" using assms(1) by (simp add: sum_squares_gt_zero_iff)
  have pos_b: "0 < ?nb" using assms(2) by (simp add: sum_squares_gt_zero_iff)
  have prod: "finite_val (fmul ?F (dvec2_norm ?F ?a) (dvec2_norm ?F ?b)) = Some (?na * ?nb)"
    using finite_val_mul [OF nrm nrm] by (simp add: exact_fpu_def)
  have "0 < ?na * ?nb" using pos_a pos_b by (rule mult_pos_pos)
  then have ne: "?na * ?nb \<noteq> 0" by (rule less_imp_neq [THEN not_sym])
  have quot: "finite_val (fdiv ?F (dot ?F ?a ?b) (fmul ?F (dvec2_norm ?F ?a) (dvec2_norm ?F ?b)))
              = Some ((a_x * b_x + a_y * b_y) / (?na * ?nb))"
    using finite_val_div [OF dot prod ne] by (simp add: exact_fpu_def)
  have "\<bar>(a_x * b_x + a_y * b_y) / (?na * ?nb)\<bar> \<le> 1"
    using cauchy_schwarz2 [of a_x b_x a_y b_y] \<open>0 < ?na * ?nb\<close>
    by (simp only: abs_divide abs_of_pos [OF \<open>0 < ?na * ?nb\<close>] divide_le_eq_1_pos)
  then have "- 1 \<le> (a_x * b_x + a_y * b_y) / (?na * ?nb)" "(a_x * b_x + a_y * b_y) / (?na * ?nb) \<le> 1"
    by (rule abs_le_D2 [THEN minus_le_iff [THEN iffD1]], rule abs_le_D1)
  from exact_acos_finite [OF quot this] show ?thesis
    by (simp add: theta_def exact_fpu_def power2_eq_square)
qed

lemma exact_mul_commute: "exact_mul a b = exact_mul b a"
  by (cases a; cases b) (auto simp: exact_mul_def signed_fin_def signed_inf_def mult.commute)

lemmas exact_defs = theta_def dot_def dvec2_norm_def exact_fpu_def exact_add_def exact_mul_def
  exact_div_def exact_acos_def signed_fin_def signed_inf_def

lemma theta_zero_x: "theta exact_fpu (Fin 0, Fin 0) (Fin 1, Fin 0) = NaN"
  by (simp add: exact_defs)

lemma theta_zero_y: "theta exact_fpu (Fin 0, Fin 0) (Fin 0, Fin 1) = NaN"
  by (simp add: exact_defs)

lemma theta_x_y: "theta exact_fpu (Fin 1, Fin 0) (Fin 0, Fin 1) = Fin (pi / 2)"
  by (simp add: exact_defs)

lemma theta_y_x: "theta exact_fpu (Fin 0, Fin 1) (Fin 1, Fin 0) = Fin (pi / 2)"
  by (simp add: exact_defs)

lemma theta_x_x: "theta exact_fpu (Fin 1, Fin 0) (Fin 1, Fin 0) = Fin 0"
  by (simp add: exact_defs)

text \<open>
  C10. \<open>theta a b\<close> and \<open>theta b a\<close> are the same double, on a platform whose
  multiplication of doubles is commutative (as IEEE 754 multiplication is): the dot
  product and the product of the norms do not change when \<open>a\<close> and \<open>b\<close> change places.
\<close>

theorem theta_symmetric:
  "(\<forall>x y. fmul F x y = fmul F y x) \<Longrightarrow> theta F a b = theta F b a"
proof -
  assume comm: "\<forall>x y. fmul F x y = fmul F y x"
  have "dot F a b = dot F b a"
    unfolding dot_def using comm by metis
  moreover have "fmul F (dvec2_norm F a) (dvec2_norm F b) = fmul F (dvec2_norm F b) (dvec2_norm F a)"
    using comm by blast
  ultimately show ?thesis by (simp add: theta_def)
qed

theorem theta_symmetric_witness:
  "theta exact_fpu (Fin 1, Fin 0) (Fin 0, Fin 1) = theta exact_fpu (Fin 0, Fin 1) (Fin 1, Fin 0)"
proof -
  have "\<forall>x y. fmul exact_fpu x y = fmul exact_fpu y x"
    using exact_mul_commute by (simp add: exact_fpu_def)
  then show ?thesis by (rule theta_symmetric)
qed

section \<open>Properties of the angle sort\<close>

lemma mset_insert_by: "mset (insert_by cmp x ys) = add_mset x (mset ys)"
  by (induction ys) simp_all

lemma mset_fold_insert_by: "mset (fold (insert_by cmp) xs acc) = mset xs + mset acc"
  by (induction xs arbitrary: acc) (simp_all add: mset_insert_by)

lemma mset_std_sort: "mset (std_sort cmp xs) = mset xs"
  by (simp add: std_sort_def mset_fold_insert_by)

text \<open>
  C6. \<open>theta_sort\<close> returns the pairs of \<open>pairwise_elts\<close>, each as often as it occurs
  there, in some order.
\<close>

theorem theta_sort_permutation: "mset (theta_sort F vecs) = mset (pairwise_elts vecs)"
  by (simp add: theta_sort_def mset_std_sort)

text \<open>
  Among doubles that are not \<open>NaN\<close>, \<open>dle\<close> is a total preorder and \<open>dless\<close> its strict
  part, so insertion keeps a list sorted.
\<close>

lemma dle_trans: "dle a b \<Longrightarrow> dle b c \<Longrightarrow> dle a c"
  by (auto simp: dle_def split: option.splits)

lemma dless_imp_dle: "dless a b \<Longrightarrow> dle a b"
  by (auto simp: dle_def dless_def split: option.splits)

lemma not_dless_imp_dle: "a \<noteq> NaN \<Longrightarrow> b \<noteq> NaN \<Longrightarrow> \<not> dless a b \<Longrightarrow> dle b a"
  by (cases a; cases b) (auto simp: dle_def dless_def)

lemma sorted_insert_by:
  assumes "sorted_wrt (\<lambda>p q. dle (key p) (key q)) ys"
    and "\<forall>y\<in>set ys. key y \<noteq> NaN" and "key x \<noteq> NaN"
  shows "sorted_wrt (\<lambda>p q. dle (key p) (key q)) (insert_by (\<lambda>p q. dless (key p) (key q)) x ys)"
  using assms
proof (induction ys)
  case Nil
  show ?case by simp
next
  case (Cons y ys)
  show ?case
  proof (cases "dless (key x) (key y)")
    case True
    then have xy: "dle (key x) (key y)" by (rule dless_imp_dle)
    have "\<forall>z\<in>set ys. dle (key x) (key z)"
      using Cons.prems(1) xy by (auto intro: dle_trans)
    with True xy Cons.prems(1) show ?thesis by simp
  next
    case False
    then have yx: "dle (key y) (key x)"
      using Cons.prems(2,3) by (simp add: not_dless_imp_dle)
    have "set (insert_by (\<lambda>p q. dless (key p) (key q)) x ys) = insert x (set ys)"
      using mset_insert_by [of "\<lambda>p q. dless (key p) (key q)" x ys]
      by (metis set_mset_add_mset_insert set_mset_mset)
    with False yx Cons show ?thesis by simp
  qed
qed

lemma sorted_fold_insert_by:
  assumes "sorted_wrt (\<lambda>p q. dle (key p) (key q)) acc"
    and "\<forall>y\<in>set acc. key y \<noteq> NaN" and "\<forall>x\<in>set xs. key x \<noteq> NaN"
  shows "sorted_wrt (\<lambda>p q. dle (key p) (key q)) (fold (insert_by (\<lambda>p q. dless (key p) (key q))) xs acc)"
  using assms
proof (induction xs arbitrary: acc)
  case Nil
  then show ?case by simp
next
  case (Cons x xs)
  have "set (insert_by (\<lambda>p q. dless (key p) (key q)) x acc) = insert x (set acc)"
    using mset_insert_by [of "\<lambda>p q. dless (key p) (key q)" x acc]
    by (metis set_mset_add_mset_insert set_mset_mset)
  with Cons.prems sorted_insert_by [of key acc x] show ?case
    by (simp add: Cons.IH)
qed

lemma sorted_std_sort:
  "\<forall>x\<in>set xs. key x \<noteq> NaN \<Longrightarrow>
   sorted_wrt (\<lambda>p q. dle (key p) (key q)) (std_sort (\<lambda>p q. dless (key p) (key q)) xs)"
  unfolding std_sort_def by (rule sorted_fold_insert_by) simp_all

lemma theta_sort_zero_vector:
  "theta_sort exact_fpu [(Fin 0, Fin 0), (Fin 1, Fin 0), (Fin 0, Fin 1)] =
   [((Fin 0, Fin 0), (Fin 1, Fin 0)), ((Fin 0, Fin 0), (Fin 0, Fin 1)), ((Fin 1, Fin 0), (Fin 0, Fin 1))]"
  by (simp add: theta_sort_def std_sort_def pairwise_elts_def theta_zero_x theta_zero_y theta_x_y dless_def)

text \<open>
  C2, as the specification states it, promises angles that do not decrease along the
  result of \<open>theta_sort\<close> for every input. With the zero vector in the input the angle
  of two pairs is \<open>NaN\<close>, which is not less than or equal to anything.
\<close>

theorem theta_sort_monotone_counterexample:
  "Suc 0 < length (theta_sort exact_fpu [(Fin 0, Fin 0), (Fin 1, Fin 0), (Fin 0, Fin 1)]) \<and>
   \<not> dle (theta exact_fpu (fst (theta_sort exact_fpu [(Fin 0, Fin 0), (Fin 1, Fin 0), (Fin 0, Fin 1)] ! 0))
                           (snd (theta_sort exact_fpu [(Fin 0, Fin 0), (Fin 1, Fin 0), (Fin 0, Fin 1)] ! 0)))
          (theta exact_fpu (fst (theta_sort exact_fpu [(Fin 0, Fin 0), (Fin 1, Fin 0), (Fin 0, Fin 1)] ! Suc 0))
                           (snd (theta_sort exact_fpu [(Fin 0, Fin 0), (Fin 1, Fin 0), (Fin 0, Fin 1)] ! Suc 0)))"
  by (simp add: theta_sort_zero_vector theta_zero_x theta_zero_y dle_def)

text \<open>
  C2, amended. When no pair of the input has the angle \<open>NaN\<close>, the angles do not
  decrease along the result of \<open>theta_sort\<close>: each entry's angle is less than or equal
  to the next entry's.
\<close>

theorem theta_sort_monotone:
  assumes "\<forall>p\<in>set (pairwise_elts vecs). theta F (fst p) (snd p) \<noteq> NaN"
    and "Suc k < length (theta_sort F vecs)"
  shows "dle (theta F (fst (theta_sort F vecs ! k)) (snd (theta_sort F vecs ! k)))
             (theta F (fst (theta_sort F vecs ! Suc k)) (snd (theta_sort F vecs ! Suc k)))"
proof -
  have "sorted_wrt (\<lambda>p q. dle (theta F (fst p) (snd p)) (theta F (fst q) (snd q))) (theta_sort F vecs)"
    unfolding theta_sort_def Let_def using assms(1) by (rule sorted_std_sort)
  then show ?thesis
    using assms(2) by (simp add: sorted_wrt_iff_nth_less)
qed

lemma theta_sort_axes:
  "theta_sort exact_fpu [(Fin 1, Fin 0), (Fin 0, Fin 1), (Fin 1, Fin 0)] =
   [((Fin 1, Fin 0), (Fin 1, Fin 0)), ((Fin 1, Fin 0), (Fin 0, Fin 1)), ((Fin 0, Fin 1), (Fin 1, Fin 0))]"
  by (simp add: theta_sort_def std_sort_def pairwise_elts_def theta_x_y theta_y_x theta_x_x dless_def)

theorem theta_sort_monotone_witness:
  "theta_sort exact_fpu [(Fin 1, Fin 0), (Fin 0, Fin 1), (Fin 1, Fin 0)] ! 0 = ((Fin 1, Fin 0), (Fin 1, Fin 0)) \<and>
   theta_sort exact_fpu [(Fin 1, Fin 0), (Fin 0, Fin 1), (Fin 1, Fin 0)] ! Suc 0 = ((Fin 1, Fin 0), (Fin 0, Fin 1)) \<and>
   dle (theta exact_fpu (Fin 1, Fin 0) (Fin 1, Fin 0)) (theta exact_fpu (Fin 1, Fin 0) (Fin 0, Fin 1))"
proof -
  let ?vecs = "[(Fin 1, Fin 0), (Fin 0, Fin 1), (Fin 1, Fin 0)]"
  have no_nan: "\<forall>p\<in>set (pairwise_elts ?vecs). theta exact_fpu (fst p) (snd p) \<noteq> NaN"
    by (simp add: pairwise_elts_def theta_x_y theta_y_x theta_x_x)
  have len: "Suc 0 < length (theta_sort exact_fpu ?vecs)"
    by (simp add: theta_sort_axes)
  from theta_sort_monotone [OF no_nan len] show ?thesis
    by (simp add: theta_sort_axes)
qed

section \<open>Properties of the driver\<close>

lemma ingest_loop_error:
  "ingest_loop ts out = Inl e \<Longrightarrow> e = Runtime_error ''mismatched vector elements''"
  by (induction ts out rule: ingest_loop.induct) simp_all

lemma ingest_dvecs_axes:
  "ingest_dvecs [Fin 1, Fin 0, Fin 0, Fin 1] = Inr [(Fin 1, Fin 0), (Fin 0, Fin 1)]"
  by (simp add: ingest_dvecs_def)

lemma theta_sort_two_axes:
  "theta_sort F [(Fin 1, Fin 0), (Fin 0, Fin 1)] = [((Fin 1, Fin 0), (Fin 0, Fin 1))]"
  by (simp add: theta_sort_def std_sort_def pairwise_elts_def)

text \<open>
  C8. Without an argument \<open>main\<close> chooses the file \<open>test.txt\<close>, with one argument the
  file the argument names, and it consults no other file. When the chosen file cannot
  be opened, \<open>main\<close> throws \<open>runtime_error("no input file")\<close>, which nobody catches: the
  exit status is not zero and nothing has been written. When the chosen file can be
  opened, \<open>main\<close> runs on what that file holds: it ingests it, and either ends by the
  exception of the ingestion or writes one line for each pair of \<open>theta_sort\<close> and
  returns 0; it does not end by the exception for a missing file.
\<close>

theorem main_file_handling:
  "(length argv = 1 \<longrightarrow> main_fname argv = ''test.txt'') \<and>
   (length argv = 2 \<longrightarrow> main_fname argv = argv ! 1) \<and>
   main F fmt files argv = main F fmt (\<lambda>name. files (main_fname argv)) argv \<and>
   (files (main_fname argv) = None \<longrightarrow>
      main F fmt files argv = \<lparr>stdout = [], ending = Uncaught (Runtime_error ''no input file'')\<rparr> \<and>
      nonzero_exit (ending (main F fmt files argv))) \<and>
   (files (main_fname argv) = Some ifile \<longrightarrow>
      main F fmt files argv =
        (case ingest_dvecs ifile of
           Inl e \<Rightarrow> \<lparr>stdout = [], ending = Uncaught e\<rparr>
         | Inr vecs \<Rightarrow>
             \<lparr>stdout = map (\<lambda>(x, y). fmt x y (theta F x y)) (theta_sort F vecs),
              ending = Returned 0\<rparr>) \<and>
      ending (main F fmt files argv) \<noteq> Uncaught (Runtime_error ''no input file''))"
proof (intro conjI impI)
  assume opened: "files (main_fname argv) = Some ifile"
  show run: "main F fmt files argv =
        (case ingest_dvecs ifile of
           Inl e \<Rightarrow> \<lparr>stdout = [], ending = Uncaught e\<rparr>
         | Inr vecs \<Rightarrow>
             \<lparr>stdout = map (\<lambda>(x, y). fmt x y (theta F x y)) (theta_sort F vecs),
              ending = Returned 0\<rparr>)"
    using opened by (simp add: main_def Let_def split: sum.splits)
  show "ending (main F fmt files argv) \<noteq> Uncaught (Runtime_error ''no input file'')"
  proof (cases "ingest_dvecs ifile")
    case (Inl e)
    then have "e = Runtime_error ''mismatched vector elements''"
      unfolding ingest_dvecs_def by (rule ingest_loop_error)
    with Inl run show ?thesis by simp
  next
    case (Inr vecs)
    with run show ?thesis by simp
  qed
qed (simp_all add: main_def main_fname_def DEFAULT_FNAME_def)

theorem main_file_handling_witness:
  "main_fname [''ex6''] = ''test.txt'' \<and>
   main_fname [''ex6'', ''in.txt''] = ''in.txt'' \<and>
   main exact_fpu (\<lambda>x y t. ''line'') (\<lambda>name. None) [''ex6''] =
     \<lparr>stdout = [], ending = Uncaught (Runtime_error ''no input file'')\<rparr> \<and>
   main exact_fpu (\<lambda>x y t. ''line'') (\<lambda>name. if name = ''test.txt'' then Some [] else None)
     [''ex6'', ''in.txt''] =
     \<lparr>stdout = [], ending = Uncaught (Runtime_error ''no input file'')\<rparr> \<and>
   main exact_fpu (\<lambda>x y t. ''line'')
     (\<lambda>name. if name = ''test.txt'' then Some [Fin 1, Fin 0, Fin 0, Fin 1] else None) [''ex6''] =
     \<lparr>stdout = [''line''], ending = Returned 0\<rparr> \<and>
   main exact_fpu (\<lambda>x y t. ''line'')
     (\<lambda>name. if name = ''in.txt'' then Some [Fin 1, Fin 0, Fin 0, Fin 1] else None)
     [''ex6'', ''in.txt''] =
     \<lparr>stdout = [''line''], ending = Returned 0\<rparr>"
proof -
  let ?fmt = "\<lambda>(x::dvec2) (y::dvec2) (t::double). ''line''"
  let ?only_default = "\<lambda>name. if name = ''test.txt'' then Some [] else None"
  let ?default = "\<lambda>name. if name = ''test.txt'' then Some [Fin 1, Fin 0, Fin 0, Fin 1] else None"
  let ?given = "\<lambda>name. if name = ''in.txt'' then Some [Fin 1, Fin 0, Fin 0, Fin 1] else None"
  have l1: "length [''ex6''] = 1" and l2: "length [''ex6'', ''in.txt''] = 2" by simp_all
  have a: "main_fname [''ex6''] = ''test.txt''"
    using main_file_handling [of "[''ex6'']"] l1 by blast
  have b: "main_fname [''ex6'', ''in.txt''] = ''in.txt''"
    using main_file_handling [of "[''ex6'', ''in.txt'']"] l2 by simp
  have c: "main exact_fpu ?fmt (\<lambda>name. None) [''ex6''] =
     \<lparr>stdout = [], ending = Uncaught (Runtime_error ''no input file'')\<rparr>"
    using main_file_handling [of "[''ex6'']" exact_fpu ?fmt "\<lambda>name. None"] by blast
  have "?only_default (main_fname [''ex6'', ''in.txt'']) = None"
    by (simp add: b)
  then have d: "main exact_fpu ?fmt ?only_default [''ex6'', ''in.txt''] =
     \<lparr>stdout = [], ending = Uncaught (Runtime_error ''no input file'')\<rparr>"
    using main_file_handling [of "[''ex6'', ''in.txt'']" exact_fpu ?fmt ?only_default] by blast
  have "?default (main_fname [''ex6'']) = Some [Fin 1, Fin 0, Fin 0, Fin 1]"
    by (simp add: a)
  with main_file_handling [of "[''ex6'']" exact_fpu ?fmt ?default "[Fin 1, Fin 0, Fin 0, Fin 1]"]
  have "main exact_fpu ?fmt ?default [''ex6''] =
    (case ingest_dvecs [Fin 1, Fin 0, Fin 0, Fin 1] of
       Inl e \<Rightarrow> \<lparr>stdout = [], ending = Uncaught e\<rparr>
     | Inr vecs \<Rightarrow>
         \<lparr>stdout = map (\<lambda>(x, y). ?fmt x y (theta exact_fpu x y)) (theta_sort exact_fpu vecs),
          ending = Returned 0\<rparr>)"
    by blast
  then have e: "main exact_fpu ?fmt ?default [''ex6''] = \<lparr>stdout = [''line''], ending = Returned 0\<rparr>"
    by (simp add: ingest_dvecs_axes theta_sort_two_axes)
  have "?given (main_fname [''ex6'', ''in.txt'']) = Some [Fin 1, Fin 0, Fin 0, Fin 1]"
    by (simp add: b)
  with main_file_handling [of "[''ex6'', ''in.txt'']" exact_fpu ?fmt ?given "[Fin 1, Fin 0, Fin 0, Fin 1]"]
  have "main exact_fpu ?fmt ?given [''ex6'', ''in.txt''] =
    (case ingest_dvecs [Fin 1, Fin 0, Fin 0, Fin 1] of
       Inl e \<Rightarrow> \<lparr>stdout = [], ending = Uncaught e\<rparr>
     | Inr vecs \<Rightarrow>
         \<lparr>stdout = map (\<lambda>(x, y). ?fmt x y (theta exact_fpu x y)) (theta_sort exact_fpu vecs),
          ending = Returned 0\<rparr>)"
    by blast
  then have f: "main exact_fpu ?fmt ?given [''ex6'', ''in.txt''] = \<lparr>stdout = [''line''], ending = Returned 0\<rparr>"
    by (simp add: ingest_dvecs_axes theta_sort_two_axes)
  from a b c d e f show ?thesis by blast
qed

text \<open>
  C9. With more than one argument \<open>main\<close> chooses \<open>test.txt\<close> and behaves as it does
  without any argument.
\<close>

theorem main_extra_arguments:
  "2 < length argv \<Longrightarrow>
   main_fname argv = ''test.txt'' \<and> main F fmt files argv = main F fmt files (take 1 argv)"
  by (simp add: main_def main_fname_def DEFAULT_FNAME_def)

theorem main_extra_arguments_witness:
  "main_fname [''ex6'', ''a.txt'', ''b.txt''] = ''test.txt'' \<and>
   main exact_fpu (\<lambda>x y t. []) (\<lambda>name. if name = ''a.txt'' then Some [] else None) [''ex6'', ''a.txt'', ''b.txt''] =
     \<lparr>stdout = [], ending = Uncaught (Runtime_error ''no input file'')\<rparr>"
proof -
  have "2 < length [''ex6'', ''a.txt'', ''b.txt'']" by simp
  from main_extra_arguments [OF this, of exact_fpu "\<lambda>x y t. []" "\<lambda>name. if name = ''a.txt'' then Some [] else None"]
  show ?thesis by (simp add: main_def main_fname_def DEFAULT_FNAME_def)
qed

end
